theory Spec2Isabelle
  imports Main
begin

section \<open>The resources declared by \<open>Usecase1Stack.__init__\<close>\<close>

text \<open>
  \<open>usecase_1_stack.py\<close> is one constructor that declares cloud resources. Each resource
  is a record holding the keyword arguments the constructor passes; an argument the
  source leaves out is \<open>None\<close> at the call and the resource's constructor function
  fills in the default of the construct library. The tokens the source reads
  from the stack (\<open>self.account\<close>, \<open>self.region\<close>) and the name the deployment gives the
  topic are the fields of \<open>stack_env\<close>.
\<close>

record stack_env =
  account :: string
  region :: string
  topic_physical_name :: string

subsection \<open>Topic and buckets (lines 22--37)\<close>

datatype subscription = EmailSubscription string

record topic =
  topic_id :: string
  display_name :: string
  subscriptions :: "subscription list"
  topic_arn :: string

definition add_subscription :: "topic \<Rightarrow> subscription \<Rightarrow> topic" where
  "add_subscription t s = t\<lparr>subscriptions := subscriptions t @ [s]\<rparr>"

definition sns_topic :: "stack_env \<Rightarrow> topic" where
  "sns_topic env =
     add_subscription
       \<lparr>topic_id = ''S3UploadNotificationCDKTopic'',
        display_name = ''S3 Upload Notifications created by CDK'',
        subscriptions = [],
        topic_arn = ''arn:aws:sns:'' @ region env @ '':'' @ account env @ '':''
                      @ topic_physical_name env\<rparr>
       (EmailSubscription ''a.rudrabatla@nitcoinc.in'')"

record bucket =
  bucket_id :: string
  bucket_name :: string
  event_bridge_enabled :: bool

text \<open>\<open>s3.Bucket(scope, id, bucket_name=..., event_bridge_enabled=...)\<close>: EventBridge
  notifications are off unless the caller asks for them.\<close>

definition Bucket :: "string \<Rightarrow> string \<Rightarrow> bool option \<Rightarrow> bucket" where
  "Bucket ident name ebe =
     \<lparr>bucket_id = ident, bucket_name = name,
      event_bridge_enabled = (case ebe of None \<Rightarrow> False | Some b \<Rightarrow> b)\<rparr>"

definition bucket_arn :: "bucket \<Rightarrow> string" where
  "bucket_arn b = ''arn:aws:s3:::'' @ bucket_name b"

definition source_bucket :: bucket where
  "source_bucket = Bucket ''DataSourceBucket'' ''source-bucky-2009-apsouth1'' (Some True)"

definition transformed_bucket :: bucket where
  "transformed_bucket = Bucket ''TransformedBucket'' ''transform-bucky-2009-apsouth1'' None"

subsection \<open>Roles and policy statements (lines 39--76, 133--147)\<close>

record policy_statement =
  actions :: "string list"
  resources :: "string list"

record role =
  role_id :: string
  assumed_by :: string
  role_description :: "string option"
  managed_policies :: "string list"
  role_name :: "string option"
  policy :: "policy_statement list"

definition add_to_policy :: "role \<Rightarrow> policy_statement \<Rightarrow> role" where
  "add_to_policy r s = r\<lparr>policy := policy r @ [s]\<rparr>"

definition role_arn :: "stack_env \<Rightarrow> role \<Rightarrow> string" where
  "role_arn env r =
     ''arn:aws:iam::'' @ account env @ '':role/''
       @ (case role_name r of None \<Rightarrow> role_id r | Some n \<Rightarrow> n)"

definition glue_role :: role where
  "glue_role =
     \<lparr>role_id = ''CDKGlueRole'',
      assumed_by = ''glue.amazonaws.com'',
      role_description = None,
      managed_policies = [''service-role/AWSGlueServiceRole'', ''AmazonS3FullAccess''],
      role_name = Some ''CDKGlueRoleName'',
      policy = []\<rparr>"

subsection \<open>Glue database, crawler and job (lines 78--131)\<close>

record database =
  database_id :: string
  catalog_id :: string
  database_name :: string
  database_description :: string

definition glue_database :: "stack_env \<Rightarrow> database" where
  "glue_database env =
     \<lparr>database_id = ''GlueDatabase'', catalog_id = account env,
      database_name = ''db_usecase'',
      database_description = ''A Glue database for storing metadata''\<rparr>"

record crawler =
  crawler_id :: string
  crawler_role :: string
  crawler_database :: string
  crawler_name :: string
  s3_targets :: "string list"
  table_prefix :: string
  crawler_description :: string

definition glue_crawler :: "stack_env \<Rightarrow> crawler" where
  "glue_crawler env =
     \<lparr>crawler_id = ''GlueCrawler'',
      crawler_role = role_arn env glue_role,
      crawler_database = database_name (glue_database env),
      crawler_name = ''crawl_on_usecase'',
      s3_targets = [bucket_name source_bucket],
      table_prefix = ''demo_'',
      crawler_description = ''Crawler to crawl data from the source bucket''\<rparr>"

definition etl_script_location :: string where
  "etl_script_location = ''s3://etl-script-bucky-2009-apsouth1/etl_script.py''"

record job =
  job_id :: string
  job_role :: string
  command :: "(string \<times> string) list"
  default_arguments :: "(string \<times> string) list"
  max_retries :: nat
  timeout :: nat
  glue_version :: string
  number_of_workers :: nat
  worker_type :: string
  job_name :: string

text \<open>\<open>timeout\<close> of a Glue job is a number of minutes.\<close>

definition glue_job :: "stack_env \<Rightarrow> job" where
  "glue_job env =
     \<lparr>job_id = ''GlueEtlJob'',
      job_role = role_arn env glue_role,
      command = [(''name'', ''glueetl''), (''scriptLocation'', etl_script_location),
                 (''pythonVersion'', ''3'')],
      default_arguments =
        [(''--job-bookmark-option'', ''job-bookmark-enable''),
         (''--enable-metrics'', ''''),
         (''--source_bucket'', bucket_name source_bucket),
         (''--destination_bucket'', bucket_name transformed_bucket)],
      max_retries = 1,
      timeout = 10,
      glue_version = ''3.0'',
      number_of_workers = 2,
      worker_type = ''Standard'',
      job_name = ''my-Etl-Job''\<rparr>"

definition crawler_arn :: "stack_env \<Rightarrow> string \<Rightarrow> string" where
  "crawler_arn env name =
     ''arn:aws:glue:'' @ region env @ '':'' @ account env @ '':crawler/'' @ name"

definition job_arn :: "stack_env \<Rightarrow> string \<Rightarrow> string" where
  "job_arn env name =
     ''arn:aws:glue:'' @ region env @ '':'' @ account env @ '':job/'' @ name"

definition catalog_arn :: "stack_env \<Rightarrow> string" where
  "catalog_arn env = ''arn:aws:glue:'' @ region env @ '':'' @ account env @ '':catalog''"

text \<open>The workflow role after its two \<open>add_to_policy\<close> calls (lines 46 and 134): the
  statements the source writes. When the state machine is built with this role, the
  construct library attaches further statements that it derives from the tasks (among
  them the crawler start on the \<open>iam_resources\<close> of line 158); they only add to the
  grants below.\<close>

definition step_function_role :: "stack_env \<Rightarrow> role" where
  "step_function_role env =
     add_to_policy
       (add_to_policy
          \<lparr>role_id = ''CDKStepFunctionRole'',
           assumed_by = ''states.amazonaws.com'',
           role_description =
             Some ''Role for Step Functions to publish to SNS and Start Glue Crawler'',
           managed_policies = [],
           role_name = None,
           policy = []\<rparr>
          \<lparr>actions = [''sns:Publish''], resources = [topic_arn (sns_topic env)]\<rparr>)
       \<lparr>actions = [''glue:StartCrawler'', ''glue:GetCrawler'', ''glue:StartJobRun'',
                   ''glue:GetJobRun'', ''glue:GetJob''],
        resources = [crawler_arn env (crawler_name (glue_crawler env)),
                     job_arn env (job_name (glue_job env)),
                     catalog_arn env]\<rparr>"

subsection \<open>Workflow steps (lines 150--194)\<close>

datatype integration_pattern = REQUEST_RESPONSE | RUN_JOB | WAIT_FOR_TASK_TOKEN

datatype task_input =
    from_text string
  | from_object "(string \<times> string) list"
  | from_json_path_at string

datatype task =
    CallAwsService (service: string) (action: string)
      (parameters: "(string \<times> string) list") (iam_resources: "string list")
  | GlueStartJobRun (glue_job_name: string) (arguments: task_input)
  | SnsPublish (publish_topic: topic) (message: task_input)

datatype state_kind =
    TaskKind task integration_pattern "string option"
  | ParallelKind

text \<open>A step of the workflow: its construct id, what it does, the branches it forks
  (a Parallel step only), the step that \<open>next\<close> chained after it and the step an
  \<open>add_catch\<close> would route its failure to.\<close>

datatype state =
  State (state_id: string) (kind: state_kind) (branches: "state list")
        (next_state: "state option") (catch_state: "state option")

text \<open>The task constructors: \<open>integration_pattern\<close> defaults to request/response and
  \<open>result_path\<close> to none when the caller passes none.\<close>

definition Task :: "string \<Rightarrow> task \<Rightarrow> integration_pattern option \<Rightarrow> string option \<Rightarrow> state" where
  "Task ident t ip rp =
     State ident
       (TaskKind t (case ip of None \<Rightarrow> REQUEST_RESPONSE | Some p \<Rightarrow> p) rp) [] None None"

definition Parallel :: "string \<Rightarrow> state" where
  "Parallel ident = State ident ParallelKind [] None None"

fun branch :: "state \<Rightarrow> state \<Rightarrow> state" where
  "branch (State i k bs nx ct) b = State i k (bs @ [b]) nx ct"

fun chain_next :: "state \<Rightarrow> state \<Rightarrow> state" where
  "chain_next (State i k bs nx ct) s = State i k bs (Some s) ct"

definition start_crawler_task :: "stack_env \<Rightarrow> state" where
  "start_crawler_task env =
     Task ''StartCrawlerTask''
       (CallAwsService ''Glue'' ''startCrawler''
          [(''Name'', crawler_name (glue_crawler env))] [''*''])
       None (Some ''$.crawler'')"

definition start_etl_job_task :: "stack_env \<Rightarrow> state" where
  "start_etl_job_task env =
     Task ''StartETLJobTask''
       (GlueStartJobRun (job_name (glue_job env))
          (from_object
             [(''--job-bookmark-option'', ''job-bookmark-enable''),
              (''--enable-metrics'', ''''),
              (''--source_bucket'', bucket_name source_bucket),
              (''--destination_bucket'', bucket_name transformed_bucket)]))
       (Some RUN_JOB) (Some ''$.etl_job'')"

definition parallel :: "stack_env \<Rightarrow> state" where
  "parallel env =
     branch (branch (Parallel ''ParallelExecution'') (start_crawler_task env))
       (start_etl_job_task env)"

definition publish_sns_task :: "stack_env \<Rightarrow> state" where
  "publish_sns_task env =
     Task ''PublishSNSTask''
       (SnsPublish (sns_topic env)
          (from_text ''The Glue ETL job and Crawler have completed successfully!''))
       None None"

definition state_machine_definition :: "stack_env \<Rightarrow> state" where
  "state_machine_definition env = chain_next (parallel env) (publish_sns_task env)"

record state_machine_props =
  state_machine_id :: string
  definition_root :: state
  timeout_seconds :: "nat option"
  state_machine_role :: role

definition minutes :: "nat \<Rightarrow> nat" where
  "minutes n = n * 60"

definition state_machine :: "stack_env \<Rightarrow> state_machine_props" where
  "state_machine env =
     \<lparr>state_machine_id = ''StateMachine'',
      definition_root = state_machine_definition env,
      timeout_seconds = Some (minutes 15),
      state_machine_role = step_function_role env\<rparr>"

subsection \<open>Event rule (lines 196--213)\<close>

datatype pattern = Values "string list" | Fields "(string \<times> pattern) list"

record event_pattern =
  pattern_source :: "string list option"
  pattern_detail_type :: "string list option"
  pattern_detail :: "(string \<times> pattern) list option"

datatype target = SfnStateMachine state_machine_props

record rule_props =
  rule_id :: string
  rule_pattern :: event_pattern
  targets :: "target list"

definition add_target :: "rule_props \<Rightarrow> target \<Rightarrow> rule_props" where
  "add_target r t = r\<lparr>targets := targets r @ [t]\<rparr>"

definition rule :: "stack_env \<Rightarrow> rule_props" where
  "rule env =
     add_target
       \<lparr>rule_id = ''S3ObjectCreatedRule'',
        rule_pattern =
          \<lparr>pattern_source = Some [''aws.s3''],
           pattern_detail_type = Some [''Object Created''],
           pattern_detail =
             Some [(''bucket'', Fields [(''name'', Values [bucket_name source_bucket])])]\<rparr>,
        targets = []\<rparr>
       (SfnStateMachine (state_machine env))"

section \<open>Events and the rule's predicate\<close>

text \<open>
  An event on the bus carries its source, its detail type and a detail object, a tree
  whose leaves are strings. A rule's pattern names, per field, the list of accepted
  values; a nested dictionary of the pattern descends into the detail object; a field
  the pattern names and the event lacks does not match. This is the matching the
  event bus applies to the pattern of line 198; the bus is not part of the repository.
\<close>

datatype event_value = Str string | Obj "(string \<times> event_value) list"

record event =
  source :: string
  detail_type :: string
  detail :: "(string \<times> event_value) list"

fun matches :: "pattern \<Rightarrow> event_value \<Rightarrow> bool"
  and matches_fields :: "(string \<times> pattern) list \<Rightarrow> (string \<times> event_value) list \<Rightarrow> bool" where
  "matches (Values vs) (Str s) = (s \<in> set vs)"
| "matches (Values vs) (Obj m) = False"
| "matches (Fields fs) (Str s) = False"
| "matches (Fields fs) (Obj m) = matches_fields fs m"
| "matches_fields [] m = True"
| "matches_fields ((k, p) # fs) m =
     ((case map_of m k of None \<Rightarrow> False | Some v \<Rightarrow> matches p v) \<and> matches_fields fs m)"

definition matches_event :: "event_pattern \<Rightarrow> event \<Rightarrow> bool" where
  "matches_event p e =
     ((case pattern_source p of None \<Rightarrow> True | Some vs \<Rightarrow> source e \<in> set vs)
      \<and> (case pattern_detail_type p of None \<Rightarrow> True | Some vs \<Rightarrow> detail_type e \<in> set vs)
      \<and> (case pattern_detail p of None \<Rightarrow> True | Some fs \<Rightarrow> matches_fields fs (detail e)))"

text \<open>What a rule does with an event: one start request per target when the pattern
  matches, with the event as the input, and nothing otherwise.\<close>

datatype invocation = StartExecution state_machine_props event

fun invoke :: "event \<Rightarrow> target \<Rightarrow> invocation" where
  "invoke e (SfnStateMachine sm) = StartExecution sm e"

definition deliver :: "rule_props \<Rightarrow> event \<Rightarrow> invocation list" where
  "deliver r e = (if matches_event (rule_pattern r) e then map (invoke e) (targets r) else [])"

text \<open>The bucket name of an event: the string at \<open>detail.bucket.name\<close>, if there is one.\<close>

definition event_bucket_name :: "event \<Rightarrow> string option" where
  "event_bucket_name e =
     (case map_of (detail e) ''bucket'' of
        Some (Obj b) \<Rightarrow> (case map_of b ''name'' of Some (Str n) \<Rightarrow> Some n | _ \<Rightarrow> None)
      | _ \<Rightarrow> None)"

text \<open>The events a bucket puts on the bus when an object with the given key is created
  in it: one \<open>Object Created\<close> event if the bucket has EventBridge notifications on,
  none otherwise.\<close>

definition object_created :: "bucket \<Rightarrow> string \<Rightarrow> event list" where
  "object_created b key =
     (if event_bridge_enabled b
      then [\<lparr>source = ''aws.s3'', detail_type = ''Object Created'',
             detail = [(''bucket'', Obj [(''name'', Str (bucket_name b))]),
                       (''object'', Obj [(''key'', Str key)])]\<rparr>]
      else [])"

section \<open>The workflow definition as a graph\<close>

fun all_states :: "state \<Rightarrow> state list" where
  "all_states (State i k bs nx ct) =
     State i k bs nx ct # concat (map all_states bs)
       @ (case nx of None \<Rightarrow> [] | Some n \<Rightarrow> all_states n)
       @ (case ct of None \<Rightarrow> [] | Some c \<Rightarrow> all_states c)"

text \<open>The steps of the top-level chain, following \<open>next\<close> from the root.\<close>

fun chain_states :: "state \<Rightarrow> state list" where
  "chain_states (State i k bs nx ct) =
     State i k bs nx ct # (case nx of None \<Rightarrow> [] | Some n \<Rightarrow> chain_states n)"

text \<open>The ids of the steps at which the chain that starts at a step ends.\<close>

fun end_ids :: "state \<Rightarrow> string list" where
  "end_ids (State i k bs nx ct) = (case nx of None \<Rightarrow> [i] | Some n \<Rightarrow> end_ids n)"

text \<open>Control-flow edges between step ids: a Parallel step forks to the start of each
  branch; a step with a successor goes to it, a Parallel step doing so from the end of
  each of its branches (the join); a catch goes from the step to its handler.\<close>

fun edges :: "state \<Rightarrow> (string \<times> string) list" where
  "edges (State i k bs nx ct) =
     map (\<lambda>b. (i, state_id b)) bs
       @ concat (map edges bs)
       @ (case nx of None \<Rightarrow> []
          | Some n \<Rightarrow>
              (if bs = [] then [(i, state_id n)]
               else concat (map (\<lambda>b. map (\<lambda>e. (e, state_id n)) (end_ids b)) bs))
              @ edges n)
       @ (case ct of None \<Rightarrow> [] | Some c \<Rightarrow> (i, state_id c) # edges c)"

definition terminal_states :: "state \<Rightarrow> string list" where
  "terminal_states s =
     filter (\<lambda>i. i \<notin> fst ` set (edges s)) (map state_id (all_states s))"

section \<open>Permission grants\<close>

text \<open>The action/resource pairs a role's own statements grant: every action of a
  statement on every resource of that statement.\<close>

definition grants :: "role \<Rightarrow> (string \<times> string) list" where
  "grants r = concat (map (\<lambda>s. List.product (actions s) (resources s)) (policy r))"

text \<open>The action/resource pairs a step needs: the call it makes, on the resource it
  names; a job step that waits for the run also reads the run's status.\<close>

fun task_requires :: "stack_env \<Rightarrow> task \<Rightarrow> integration_pattern \<Rightarrow> (string \<times> string) list" where
  "task_requires env (CallAwsService svc act ps rs) ip =
     (if svc = ''Glue'' \<and> act = ''startCrawler''
      then (case map_of ps ''Name'' of
              None \<Rightarrow> [] | Some n \<Rightarrow> [(''glue:StartCrawler'', crawler_arn env n)])
      else [(svc @ '':'' @ act, r). r \<leftarrow> rs])"
| "task_requires env (GlueStartJobRun n args) ip =
     (''glue:StartJobRun'', job_arn env n)
       # (if ip = RUN_JOB then [(''glue:GetJobRun'', job_arn env n)] else [])"
| "task_requires env (SnsPublish t m) ip = [(''sns:Publish'', topic_arn t)]"

fun state_requires :: "stack_env \<Rightarrow> state \<Rightarrow> (string \<times> string) list" where
  "state_requires env (State i (TaskKind t ip rp) bs nx ct) = task_requires env t ip"
| "state_requires env (State i ParallelKind bs nx ct) = []"

definition required :: "stack_env \<Rightarrow> state \<Rightarrow> (string \<times> string) list" where
  "required env root = concat (map (state_requires env) (all_states root))"

section \<open>Running the workflow\<close>

text \<open>
  The stack only declares the workflow; the workflow service runs it, the job service
  runs the job. What follows is the part of their semantics that the declared
  definition, the job's \<open>max_retries\<close> and \<open>timeout\<close> and the workflow's \<open>timeout\<close>
  select. What the services outside do in one execution is a \<open>world\<close>: whether the
  request a step makes is accepted, what the service answers, and how each attempt
  of the work a request started ends and how many seconds it runs. A request and its
  answer take no time; only awaited work does.
\<close>

datatype json = JNull | JString string | JObject "(string \<times> json) list" | JArray "json list"

fun event_json :: "event_value \<Rightarrow> json"
  and fields_json :: "(string \<times> event_value) list \<Rightarrow> (string \<times> json) list" where
  "event_json (Str s) = JString s"
| "event_json (Obj m) = JObject (fields_json m)"
| "fields_json [] = []"
| "fields_json ((k, v) # m) = (k, event_json v) # fields_json m"

definition execution_input :: "event \<Rightarrow> json" where
  "execution_input e =
     JObject [(''source'', JString (source e)), (''detail-type'', JString (detail_type e)),
              (''detail'', JObject (fields_json (detail e)))]"

record world =
  accepts :: "string \<Rightarrow> bool"
  response :: "string \<Rightarrow> json"
  work :: "string \<Rightarrow> nat \<Rightarrow> bool \<times> nat"

datatype run_state = SUCCEEDED | FAILED | TIMEOUT

text \<open>A job run: attempt \<open>i\<close> is stopped when it runs longer than the job's timeout;
  a failed attempt is retried while retries are left. The result is the final run
  state, the number of attempts made and the seconds they took.\<close>

fun job_run :: "nat \<Rightarrow> (nat \<Rightarrow> bool \<times> nat) \<Rightarrow> nat \<Rightarrow> nat \<Rightarrow> run_state \<times> nat \<times> nat" where
  "job_run limit attempts i 0 =
     (case attempts i of (ok, d) \<Rightarrow>
        if limit < d then (TIMEOUT, Suc i, limit)
        else if ok then (SUCCEEDED, Suc i, d)
        else (FAILED, Suc i, d))"
| "job_run limit attempts i (Suc r) =
     (case attempts i of (ok, d) \<Rightarrow>
        if limit < d then (TIMEOUT, Suc i, limit)
        else if ok then (SUCCEEDED, Suc i, d)
        else (case job_run limit attempts (Suc i) r of (st, n, d') \<Rightarrow> (st, n, d + d')))"

text \<open>The value of a task input against the data the step receives: a text and an
  object of literals do not read the data, a JSON path does (\<open>$\<close> or \<open>$.field\<close>).\<close>

definition json_path :: "string \<Rightarrow> json \<Rightarrow> json option" where
  "json_path p d =
     (if p = ''$'' then Some d
      else if take 2 p = ''$.'' then (case d of JObject m \<Rightarrow> map_of m (drop 2 p) | _ \<Rightarrow> None)
      else None)"

definition literals :: "(string \<times> string) list \<Rightarrow> json" where
  "literals kvs = JObject (map (\<lambda>kv. (fst kv, JString (snd kv))) kvs)"

fun resolve :: "task_input \<Rightarrow> json \<Rightarrow> json option" where
  "resolve (from_text s) d = Some (JString s)"
| "resolve (from_object kvs) d = Some (literals kvs)"
| "resolve (from_json_path_at p) d = json_path p d"

fun put_result :: "string option \<Rightarrow> json \<Rightarrow> json \<Rightarrow> json" where
  "put_result None d r = r"
| "put_result (Some p) (JObject m) r =
     JObject (filter (\<lambda>kv. fst kv \<noteq> drop 2 p) m @ [(drop 2 p, r)])"
| "put_result (Some p) d r = JObject [(drop 2 p, r)]"

datatype request = Request string string json

fun task_request :: "task \<Rightarrow> json \<Rightarrow> request option" where
  "task_request (CallAwsService svc act ps rs) d = Some (Request svc act (literals ps))"
| "task_request (GlueStartJobRun n args) d =
     map_option
       (\<lambda>a. Request ''Glue'' ''startJobRun'' (JObject [(''JobName'', JString n), (''Arguments'', a)]))
       (resolve args d)"
| "task_request (SnsPublish t m) d =
     map_option
       (\<lambda>x. Request ''SNS'' ''publish''
              (JObject [(''TopicArn'', JString (topic_arn t)), (''Message'', x)]))
       (resolve m d)"

text \<open>The work a step waits for when it does not return with the answer: the run of
  the named job under that job's retries and timeout (minutes), or one attempt of
  anything else.\<close>

fun awaited :: "job list \<Rightarrow> world \<Rightarrow> string \<Rightarrow> task \<Rightarrow> run_state \<times> nat \<times> nat" where
  "awaited jobs w sid (GlueStartJobRun n args) =
     (case find (\<lambda>j. job_name j = n) jobs of
        None \<Rightarrow> (FAILED, 0, 0)
      | Some j \<Rightarrow> job_run (minutes (timeout j)) (work w sid) 0 (max_retries j))"
| "awaited jobs w sid t =
     (case work w sid 0 of (ok, d) \<Rightarrow> (if ok then SUCCEEDED else FAILED, 1, d))"

datatype exec_status = Succeeded | Failed | TimedOut

datatype entry = Entered string | Accepted string request | Rejected string request

record result =
  status :: exec_status
  finished :: nat
  out_data :: json
  trace :: "(nat \<times> entry) list"

definition exec_task ::
  "job list \<Rightarrow> world \<Rightarrow> string \<Rightarrow> task \<Rightarrow> integration_pattern \<Rightarrow> string option
     \<Rightarrow> json \<Rightarrow> nat \<Rightarrow> result" where
  "exec_task jobs w sid t ip rp d now =
     (case task_request t d of
        None \<Rightarrow> \<lparr>status = Failed, finished = now, out_data = d, trace = [(now, Entered sid)]\<rparr>
      | Some rq \<Rightarrow>
          if \<not> accepts w sid
          then \<lparr>status = Failed, finished = now, out_data = d,
                trace = [(now, Entered sid), (now, Rejected sid rq)]\<rparr>
          else if ip = REQUEST_RESPONSE
          then \<lparr>status = Succeeded, finished = now,
                out_data = put_result rp d (response w sid),
                trace = [(now, Entered sid), (now, Accepted sid rq)]\<rparr>
          else (case awaited jobs w sid t of (st, n, secs) \<Rightarrow>
                 \<lparr>status = (if st = SUCCEEDED then Succeeded else Failed),
                  finished = now + secs,
                  out_data = put_result rp d (response w sid),
                  trace = [(now, Entered sid), (now, Accepted sid rq)]\<rparr>))"

text \<open>A Parallel step: its branches start together. It succeeds when all have
  succeeded, at the time the last one ends, with the list of their outputs. It fails
  when the first failing branch fails, and what the other branches would have done
  later does not happen.\<close>

definition upto_time :: "nat \<Rightarrow> (nat \<times> entry) list \<Rightarrow> (nat \<times> entry) list" where
  "upto_time t tr = filter (\<lambda>te. fst te \<le> t) tr"

definition join :: "string \<Rightarrow> nat \<Rightarrow> result list \<Rightarrow> result" where
  "join sid now rs =
     (case filter (\<lambda>r. status r \<noteq> Succeeded) rs of
        [] \<Rightarrow>
          \<lparr>status = Succeeded, finished = fold max (map finished rs) now,
           out_data = JArray (map out_data rs),
           trace = (now, Entered sid) # concat (map trace rs)\<rparr>
      | f # fs \<Rightarrow>
          \<lparr>status = Failed, finished = fold min (map finished fs) (finished f),
           out_data = JNull,
           trace = (now, Entered sid)
                     # upto_time (fold min (map finished fs) (finished f))
                         (concat (map trace rs))\<rparr>)"

definition continue :: "result \<Rightarrow> result \<Rightarrow> result" where
  "continue r r' = r'\<lparr>trace := trace r @ trace r'\<rparr>"

text \<open>A step, then the step chained after it when it succeeds, or its catch handler
  when it fails; a failure without a handler ends the execution as failed.\<close>

fun exec :: "job list \<Rightarrow> world \<Rightarrow> state \<Rightarrow> json \<Rightarrow> nat \<Rightarrow> result" where
  "exec jobs w (State sid k bs nx ct) d now =
     (let r = (case k of
                 TaskKind t ip rp \<Rightarrow> exec_task jobs w sid t ip rp d now
               | ParallelKind \<Rightarrow> join sid now (map (\<lambda>b. exec jobs w b d now) bs))
      in case status r of
           Succeeded \<Rightarrow>
             (case nx of None \<Rightarrow> r
              | Some n \<Rightarrow> continue r (exec jobs w n (out_data r) (finished r)))
         | Failed \<Rightarrow>
             (case ct of None \<Rightarrow> r
              | Some c \<Rightarrow> continue r (exec jobs w c (out_data r) (finished r)))
         | TimedOut \<Rightarrow> r)"

text \<open>The execution-level timeout: an execution that would run longer is ended as
  timed out at the limit, and what lay beyond the limit does not happen.\<close>

definition enforce_timeout :: "nat option \<Rightarrow> result \<Rightarrow> result" where
  "enforce_timeout lim r =
     (case lim of
        None \<Rightarrow> r
      | Some l \<Rightarrow>
          if l < finished r
          then \<lparr>status = TimedOut, finished = l, out_data = JNull, trace = upto_time l (trace r)\<rparr>
          else r)"

definition run_execution :: "job list \<Rightarrow> state_machine_props \<Rightarrow> world \<Rightarrow> json \<Rightarrow> result" where
  "run_execution jobs sm w input =
     enforce_timeout (timeout_seconds sm) (exec jobs w (definition_root sm) input 0)"

definition entered :: "string \<Rightarrow> result \<Rightarrow> bool" where
  "entered sid r = (Entered sid \<in> snd ` set (trace r))"

fun accepted_request :: "nat \<times> entry \<Rightarrow> request list" where
  "accepted_request (t, Accepted sid rq) = [rq]"
| "accepted_request (t, e) = []"

definition requests :: "result \<Rightarrow> request list" where
  "requests r = concat (map accepted_request (trace r))"

fun publication :: "request \<Rightarrow> json list" where
  "publication (Request svc act ps) = (if svc = ''SNS'' \<and> act = ''publish'' then [ps] else [])"

definition published :: "result \<Rightarrow> json list" where
  "published r = concat (map publication (requests r))"

text \<open>A sample deployment: an account, a region and a topic name.\<close>

definition env0 :: stack_env where
  "env0 = \<lparr>account = ''111122223333'', region = ''ap-south-1'',
           topic_physical_name = ''topic''\<rparr>"

text \<open>The requests the three steps of the definition make, and an entry of the trace
  for a request according to whether the service accepts it.\<close>

definition crawler_request :: request where
  "crawler_request =
     Request ''Glue'' ''startCrawler'' (literals [(''Name'', ''crawl_on_usecase'')])"

definition etl_request :: request where
  "etl_request = Request ''Glue'' ''startJobRun''
     (JObject [(''JobName'', JString ''my-Etl-Job''),
               (''Arguments'', literals
                  [(''--job-bookmark-option'', ''job-bookmark-enable''),
                   (''--enable-metrics'', ''''),
                   (''--source_bucket'', ''source-bucky-2009-apsouth1''),
                   (''--destination_bucket'', ''transform-bucky-2009-apsouth1'')])])"

definition publish_request :: "stack_env \<Rightarrow> request" where
  "publish_request env = Request ''SNS'' ''publish''
     (JObject [(''TopicArn'', JString (topic_arn (sns_topic env))),
               (''Message'', JString ''The Glue ETL job and Crawler have completed successfully!'')])"

definition answered :: "world \<Rightarrow> string \<Rightarrow> request \<Rightarrow> entry" where
  "answered w sid rq = (if accepts w sid then Accepted sid rq else Rejected sid rq)"

text \<open>Four worlds: everything is accepted and the job succeeds in five minutes; the
  job fails on every attempt; the job fails after 500 seconds and succeeds on the retry
  after another 500; the job would succeed, but only after 11 minutes.\<close>

definition world_all_good :: world where
  "world_all_good = \<lparr>accepts = (\<lambda>sid. True), response = (\<lambda>sid. JNull),
      work = (\<lambda>sid i. (True, 300))\<rparr>"

definition world_job_fails :: world where
  "world_job_fails = \<lparr>accepts = (\<lambda>sid. True), response = (\<lambda>sid. JNull),
      work = (\<lambda>sid i. (False, 100))\<rparr>"

definition world_job_slow :: world where
  "world_job_slow = \<lparr>accepts = (\<lambda>sid. True), response = (\<lambda>sid. JNull),
      work = (\<lambda>sid i. (i = 1, 500))\<rparr>"

definition world_job_overruns :: world where
  "world_job_overruns = \<lparr>accepts = (\<lambda>sid. True), response = (\<lambda>sid. JNull),
      work = (\<lambda>sid i. (True, 660))\<rparr>"

section \<open>Facts about the declared resources\<close>

lemma bucket_names:
  "bucket_name source_bucket = ''source-bucky-2009-apsouth1''"
  "bucket_name transformed_bucket = ''transform-bucky-2009-apsouth1''"
  by (simp_all add: source_bucket_def transformed_bucket_def Bucket_def)

lemma definition_shape:
  "state_machine_definition env =
     State ''ParallelExecution'' ParallelKind
       [start_crawler_task env, start_etl_job_task env]
       (Some (publish_sns_task env)) None"
  by (simp add: state_machine_definition_def parallel_def Parallel_def)

lemma task_shapes:
  "start_crawler_task env =
     State ''StartCrawlerTask''
       (TaskKind
          (CallAwsService ''Glue'' ''startCrawler'' [(''Name'', ''crawl_on_usecase'')] [''*''])
          REQUEST_RESPONSE (Some ''$.crawler'')) [] None None"
  "start_etl_job_task env =
     State ''StartETLJobTask''
       (TaskKind
          (GlueStartJobRun ''my-Etl-Job''
             (from_object
                [(''--job-bookmark-option'', ''job-bookmark-enable''),
                 (''--enable-metrics'', ''''),
                 (''--source_bucket'', ''source-bucky-2009-apsouth1''),
                 (''--destination_bucket'', ''transform-bucky-2009-apsouth1'')]))
          RUN_JOB (Some ''$.etl_job'')) [] None None"
  "publish_sns_task env =
     State ''PublishSNSTask''
       (TaskKind
          (SnsPublish (sns_topic env)
             (from_text ''The Glue ETL job and Crawler have completed successfully!''))
          REQUEST_RESPONSE None) [] None None"
  by (simp_all add: start_crawler_task_def start_etl_job_task_def publish_sns_task_def
      Task_def glue_crawler_def glue_job_def bucket_names)

section \<open>The trigger\<close>

lemma matches_rule:
  "matches_event (rule_pattern (rule env)) e \<longleftrightarrow>
     source e = ''aws.s3'' \<and> detail_type e = ''Object Created''
     \<and> event_bucket_name e = Some (bucket_name source_bucket)"
  by (auto simp add: matches_event_def rule_def add_target_def event_bucket_name_def
      split: option.splits event_value.splits)

lemma rule_targets: "targets (rule env) = [SfnStateMachine (state_machine env)]"
  by (simp add: rule_def add_target_def)

text \<open>
  C1. An event starts an execution of the workflow exactly when its source is
  \<open>aws.s3\<close>, its detail type is \<open>Object Created\<close> and its bucket name is the name of the
  source bucket; then the rule makes one start request, for the stack's state machine,
  with the event as input. For any other event the rule makes no request (and
  delivering has no error result).
\<close>

theorem rule_triggers_iff:
  "deliver (rule env) e =
     (if source e = ''aws.s3'' \<and> detail_type e = ''Object Created''
         \<and> event_bucket_name e = Some (bucket_name source_bucket)
      then [StartExecution (state_machine env) e] else [])"
  by (simp add: deliver_def matches_rule rule_targets)

theorem rule_triggers_iff_witness:
  "deliver (rule env0)
     \<lparr>source = ''aws.s3'', detail_type = ''Object Created'',
      detail = [(''bucket'', Obj [(''name'', Str ''source-bucky-2009-apsouth1'')])]\<rparr>
   = [StartExecution (state_machine env0)
        \<lparr>source = ''aws.s3'', detail_type = ''Object Created'',
         detail = [(''bucket'', Obj [(''name'', Str ''source-bucky-2009-apsouth1'')])]\<rparr>]
   \<and> deliver (rule env0)
       \<lparr>source = ''aws.ec2'', detail_type = ''Object Created'',
        detail = [(''bucket'', Obj [(''name'', Str ''source-bucky-2009-apsouth1'')])]\<rparr>
     = []"
  using rule_triggers_iff [of env0 "\<lparr>source = ''aws.s3'', detail_type = ''Object Created'',
      detail = [(''bucket'', Obj [(''name'', Str ''source-bucky-2009-apsouth1'')])]\<rparr>"]
    rule_triggers_iff [of env0 "\<lparr>source = ''aws.ec2'', detail_type = ''Object Created'',
      detail = [(''bucket'', Obj [(''name'', Str ''source-bucky-2009-apsouth1'')])]\<rparr>"]
  by (simp add: event_bucket_name_def bucket_names)

text \<open>
  C10. Creating an object in the transformed bucket never starts an execution: the
  bucket is created without EventBridge notifications, so it puts no event on the bus,
  and an event that carries its name does not match the rule, whose pattern names only
  the source bucket.
\<close>

theorem transformed_bucket_never_triggers:
  "event_bucket_name e = Some (bucket_name transformed_bucket) \<Longrightarrow>
     deliver (rule env) e = []
     \<and> \<not> event_bridge_enabled transformed_bucket
     \<and> object_created transformed_bucket key = []
     \<and> concat (map (deliver (rule env)) (object_created transformed_bucket key)) = []"
  by (simp add: deliver_def matches_rule bucket_names object_created_def)
     (simp add: transformed_bucket_def Bucket_def)

theorem transformed_bucket_never_triggers_witness:
  "event_bucket_name
     \<lparr>source = ''aws.s3'', detail_type = ''Object Created'',
      detail = [(''bucket'', Obj [(''name'', Str ''transform-bucky-2009-apsouth1'')])]\<rparr>
     = Some (bucket_name transformed_bucket)
   \<and> deliver (rule env0)
       \<lparr>source = ''aws.s3'', detail_type = ''Object Created'',
        detail = [(''bucket'', Obj [(''name'', Str ''transform-bucky-2009-apsouth1'')])]\<rparr>
     = []
   \<and> object_created transformed_bucket ''part-0000.parquet'' = []"
proof -
  have h: "event_bucket_name
     \<lparr>source = ''aws.s3'', detail_type = ''Object Created'',
      detail = [(''bucket'', Obj [(''name'', Str ''transform-bucky-2009-apsouth1'')])]\<rparr>
     = Some (bucket_name transformed_bucket)"
    by (simp add: event_bucket_name_def bucket_names)
  show ?thesis
    using h transformed_bucket_never_triggers [OF h, of env0 "''part-0000.parquet''"]
    by simp
qed

section \<open>The graph of the definition\<close>

lemma definition_edges:
  "edges (state_machine_definition env) =
     [(''ParallelExecution'', ''StartCrawlerTask''),
      (''ParallelExecution'', ''StartETLJobTask''),
      (''StartCrawlerTask'', ''PublishSNSTask''),
      (''StartETLJobTask'', ''PublishSNSTask'')]"
  by (simp add: definition_shape task_shapes)

lemma definition_ids:
  "map state_id (all_states (state_machine_definition env)) =
     [''ParallelExecution'', ''StartCrawlerTask'', ''StartETLJobTask'', ''PublishSNSTask'']"
  by (simp add: definition_shape task_shapes)

lemma definition_acyclic: "acyclic (set (edges (state_machine_definition env)))"
  unfolding definition_edges
  by (rule acyclicI_order [where f = "\<lambda>i. if i = ''ParallelExecution'' then 2
        else if i = ''PublishSNSTask'' then 0 else (1::nat)"]) auto

text \<open>
  C2. The definition is a Parallel step with exactly two branches, the crawler step and
  the ETL job step, chained to the one SNS publish step, which has no successor. The
  step ids are distinct, the control-flow graph over them has no cycle, and its only
  step without an outgoing edge is the publish step.
\<close>

theorem definition_graph:
  "state_machine_definition env =
     State ''ParallelExecution'' ParallelKind
       [start_crawler_task env, start_etl_job_task env]
       (Some (publish_sns_task env)) None
   \<and> kind (start_crawler_task env) =
       TaskKind
         (CallAwsService ''Glue'' ''startCrawler'' [(''Name'', ''crawl_on_usecase'')] [''*''])
         REQUEST_RESPONSE (Some ''$.crawler'')
   \<and> (\<exists>args. kind (start_etl_job_task env) =
         TaskKind (GlueStartJobRun ''my-Etl-Job'' args) RUN_JOB (Some ''$.etl_job''))
   \<and> (\<exists>msg. kind (publish_sns_task env) =
         TaskKind (SnsPublish (sns_topic env) msg) REQUEST_RESPONSE None)
   \<and> map state_id (chain_states (state_machine_definition env))
       = [''ParallelExecution'', ''PublishSNSTask'']
   \<and> next_state (publish_sns_task env) = None
   \<and> distinct (map state_id (all_states (state_machine_definition env)))
   \<and> acyclic (set (edges (state_machine_definition env)))
   \<and> terminal_states (state_machine_definition env) = [''PublishSNSTask'']"
proof -
  have "map state_id (chain_states (state_machine_definition env))
       = [''ParallelExecution'', ''PublishSNSTask'']"
    by (simp add: definition_shape task_shapes)
  moreover have "terminal_states (state_machine_definition env) = [''PublishSNSTask'']"
    by (simp add: terminal_states_def definition_edges definition_ids)
  moreover have "distinct (map state_id (all_states (state_machine_definition env)))"
    by (simp add: definition_ids)
  moreover have "next_state (publish_sns_task env) = None"
    by (simp add: task_shapes)
  moreover have "kind (start_crawler_task env) =
       TaskKind
         (CallAwsService ''Glue'' ''startCrawler'' [(''Name'', ''crawl_on_usecase'')] [''*''])
         REQUEST_RESPONSE (Some ''$.crawler'')"
    by (simp add: task_shapes)
  moreover have "\<exists>args. kind (start_etl_job_task env) =
         TaskKind (GlueStartJobRun ''my-Etl-Job'' args) RUN_JOB (Some ''$.etl_job'')"
    by (simp add: task_shapes)
  moreover have "\<exists>msg. kind (publish_sns_task env) =
         TaskKind (SnsPublish (sns_topic env) msg) REQUEST_RESPONSE None"
    by (simp add: task_shapes)
  ultimately show ?thesis
    using definition_shape definition_acyclic by simp
qed

theorem definition_graph_witness:
  "branches (state_machine_definition env0) = [start_crawler_task env0, start_etl_job_task env0]
   \<and> acyclic (set (edges (state_machine_definition env0)))
   \<and> terminal_states (state_machine_definition env0) = [''PublishSNSTask'']"
proof -
  note g = definition_graph [of env0]
  from g have "state_machine_definition env0 =
     State ''ParallelExecution'' ParallelKind
       [start_crawler_task env0, start_etl_job_task env0]
       (Some (publish_sns_task env0)) None"
    by blast
  then have "branches (state_machine_definition env0)
      = [start_crawler_task env0, start_etl_job_task env0]"
    by (simp only: state.sel)
  with g show ?thesis
    by blast
qed

section \<open>Grants\<close>

lemma required_steps:
  "required env (state_machine_definition env) =
     [(''glue:StartCrawler'', crawler_arn env ''crawl_on_usecase''),
      (''glue:StartJobRun'', job_arn env ''my-Etl-Job''),
      (''glue:GetJobRun'', job_arn env ''my-Etl-Job''),
      (''sns:Publish'', topic_arn (sns_topic env))]"
  by (simp add: required_def definition_shape task_shapes)

lemma role_grants:
  "grants (step_function_role env) =
     (''sns:Publish'', topic_arn (sns_topic env))
     # List.product
         [''glue:StartCrawler'', ''glue:GetCrawler'', ''glue:StartJobRun'',
          ''glue:GetJobRun'', ''glue:GetJob'']
         [crawler_arn env ''crawl_on_usecase'', job_arn env ''my-Etl-Job'', catalog_arn env]"
  by (simp add: grants_def step_function_role_def add_to_policy_def glue_crawler_def
      glue_job_def)

text \<open>
  C7, as stated, fails: the workflow role is granted action/resource pairs that no
  step needs, for one \<open>glue:GetCrawler\<close> on the catalog, so its grants are not contained
  in what its steps require.
\<close>

theorem grants_not_minimal_counterexample:
  "\<not> set (grants (step_function_role env0))
       \<subseteq> set (required env0 (state_machine_definition env0))"
proof
  assume a: "set (grants (step_function_role env0))
       \<subseteq> set (required env0 (state_machine_definition env0))"
  have "(''glue:GetCrawler'', catalog_arn env0) \<in> set (grants (step_function_role env0))"
    by (simp add: role_grants)
  with a have "(''glue:GetCrawler'', catalog_arn env0)
       \<in> set (required env0 (state_machine_definition env0))"
    by blast
  then show False
    by (simp add: required_steps)
qed

text \<open>
  C7, amended. Every action/resource pair the workflow's steps need (starting the
  crawler, starting the job run and reading its status, publishing to the topic) is
  among the grants of the workflow role, which also hold further pairs; the Glue
  role has no statement of its own and carries the two managed policies
  \<open>service-role/AWSGlueServiceRole\<close> and \<open>AmazonS3FullAccess\<close>.
\<close>

theorem grants_cover_required:
  "set (required env (state_machine_definition env))
     \<subseteq> set (grants (step_function_role env))
   \<and> state_machine_role (state_machine env) = step_function_role env
   \<and> managed_policies glue_role = [''service-role/AWSGlueServiceRole'', ''AmazonS3FullAccess'']
   \<and> policy glue_role = []"
  by (simp add: role_grants required_steps glue_role_def state_machine_def)

theorem grants_cover_required_witness:
  "(''glue:StartJobRun'', job_arn env0 ''my-Etl-Job'')
     \<in> set (required env0 (state_machine_definition env0))
   \<and> (''glue:StartJobRun'', job_arn env0 ''my-Etl-Job'')
     \<in> set (grants (step_function_role env0))"
proof -
  have h: "(''glue:StartJobRun'', job_arn env0 ''my-Etl-Job'')
     \<in> set (required env0 (state_machine_definition env0))"
    by (simp add: required_steps)
  show ?thesis
    using h grants_cover_required [of env0] by blast
qed

section \<open>The steps and the execution of the definition\<close>

lemma crawl_branch:
  "exec jobs w (start_crawler_task env) d now =
     \<lparr>status = (if accepts w ''StartCrawlerTask'' then Succeeded else Failed),
      finished = now,
      out_data = (if accepts w ''StartCrawlerTask''
         then put_result (Some ''$.crawler'') d (response w ''StartCrawlerTask'') else d),
      trace = [(now, Entered ''StartCrawlerTask''),
               (now, answered w ''StartCrawlerTask'' crawler_request)]\<rparr>"
  by (simp add: task_shapes exec_task_def crawler_request_def answered_def)

lemma glue_job_params:
  "job_name (glue_job env) = ''my-Etl-Job''" "max_retries (glue_job env) = 1"
  "timeout (glue_job env) = 10"
  by (simp_all add: glue_job_def)

lemma etl_branch:
  "exec [glue_job env] w (start_etl_job_task env) d now =
     (case job_run (minutes 10) (work w ''StartETLJobTask'') 0 1 of (st, n, secs) \<Rightarrow>
       \<lparr>status = (if accepts w ''StartETLJobTask'' \<and> st = SUCCEEDED then Succeeded else Failed),
        finished = (if accepts w ''StartETLJobTask'' then now + secs else now),
        out_data = (if accepts w ''StartETLJobTask''
          then put_result (Some ''$.etl_job'') d (response w ''StartETLJobTask'') else d),
        trace = [(now, Entered ''StartETLJobTask''),
                 (now, answered w ''StartETLJobTask'' etl_request)]\<rparr>)"
  by (simp add: task_shapes exec_task_def glue_job_params etl_request_def answered_def
      split: prod.splits)

lemma publish_step:
  "exec jobs w (publish_sns_task env) d now =
     \<lparr>status = (if accepts w ''PublishSNSTask'' then Succeeded else Failed),
      finished = now,
      out_data = (if accepts w ''PublishSNSTask'' then response w ''PublishSNSTask'' else d),
      trace = [(now, Entered ''PublishSNSTask''),
               (now, answered w ''PublishSNSTask'' (publish_request env))]\<rparr>"
  by (simp add: task_shapes exec_task_def publish_request_def answered_def)

lemma root_exec:
  "exec [glue_job env] w (state_machine_definition env) d 0 =
     (case job_run (minutes 10) (work w ''StartETLJobTask'') 0 1 of (st, n, secs) \<Rightarrow>
       if accepts w ''StartCrawlerTask'' \<and> accepts w ''StartETLJobTask'' \<and> st = SUCCEEDED
       then \<lparr>status = (if accepts w ''PublishSNSTask'' then Succeeded else Failed),
             finished = secs,
             out_data = (if accepts w ''PublishSNSTask'' then response w ''PublishSNSTask''
                else JArray [put_result (Some ''$.crawler'') d (response w ''StartCrawlerTask''),
                             put_result (Some ''$.etl_job'') d (response w ''StartETLJobTask'')]),
             trace = [(0, Entered ''ParallelExecution''),
                      (0, Entered ''StartCrawlerTask''),
                      (0, Accepted ''StartCrawlerTask'' crawler_request),
                      (0, Entered ''StartETLJobTask''),
                      (0, Accepted ''StartETLJobTask'' etl_request),
                      (secs, Entered ''PublishSNSTask''),
                      (secs, answered w ''PublishSNSTask'' (publish_request env))]\<rparr>
       else \<lparr>status = Failed,
             finished = (if accepts w ''StartCrawlerTask'' \<and> accepts w ''StartETLJobTask''
                         then secs else 0),
             out_data = JNull,
             trace = [(0, Entered ''ParallelExecution''),
                      (0, Entered ''StartCrawlerTask''),
                      (0, answered w ''StartCrawlerTask'' crawler_request),
                      (0, Entered ''StartETLJobTask''),
                      (0, answered w ''StartETLJobTask'' etl_request)]\<rparr>)"
proof -
  obtain st n secs where jr: "job_run (minutes 10) (work w ''StartETLJobTask'') 0 1 = (st, n, secs)"
    by (cases "job_run (minutes 10) (work w ''StartETLJobTask'') 0 1") auto
  have c: "exec [glue_job env] w (start_crawler_task env) d 0 = 
     \<lparr>status = (if accepts w ''StartCrawlerTask'' then Succeeded else Failed),
      finished = 0,
      out_data = (if accepts w ''StartCrawlerTask''
         then put_result (Some ''$.crawler'') d (response w ''StartCrawlerTask'') else d),
      trace = [(0, Entered ''StartCrawlerTask''),
               (0, answered w ''StartCrawlerTask'' crawler_request)]\<rparr>"
    by (rule crawl_branch)
  have j: "exec [glue_job env] w (start_etl_job_task env) d 0 =
       \<lparr>status = (if accepts w ''StartETLJobTask'' \<and> st = SUCCEEDED then Succeeded else Failed),
        finished = (if accepts w ''StartETLJobTask'' then secs else 0),
        out_data = (if accepts w ''StartETLJobTask''
          then put_result (Some ''$.etl_job'') d (response w ''StartETLJobTask'') else d),
        trace = [(0, Entered ''StartETLJobTask''),
                 (0, answered w ''StartETLJobTask'' etl_request)]\<rparr>"
    by (simp add: etl_branch jr del: job_run.simps One_nat_def)
  have p: "\<And>d' now. exec [glue_job env] w (publish_sns_task env) d' now =
     \<lparr>status = (if accepts w ''PublishSNSTask'' then Succeeded else Failed),
      finished = now,
      out_data = (if accepts w ''PublishSNSTask'' then response w ''PublishSNSTask'' else d'),
      trace = [(now, Entered ''PublishSNSTask''),
               (now, answered w ''PublishSNSTask'' (publish_request env))]\<rparr>"
    by (rule publish_step)
  show ?thesis
    unfolding definition_shape jr
    by (simp add: c j p join_def continue_def upto_time_def answered_def)
qed

section \<open>The job run\<close>

lemma job_run_one_retry:
  "job_run limit a 0 1 =
     (if limit < snd (a 0) then (TIMEOUT, 1, limit)
      else if fst (a 0) then (SUCCEEDED, 1, snd (a 0))
      else if limit < snd (a 1) then (TIMEOUT, 2, snd (a 0) + limit)
      else if fst (a 1) then (SUCCEEDED, 2, snd (a 0) + snd (a 1))
      else (FAILED, 2, snd (a 0) + snd (a 1)))"
  by (simp split: prod.splits)

lemma job_run_bounds:
  "job_run limit a i r = (st, n, secs) \<Longrightarrow>
     i < n \<and> n \<le> Suc (i + r) \<and> secs \<le> (n - i) * limit \<and> (st = FAILED \<longrightarrow> n = Suc (i + r))"
proof (induction r arbitrary: i st n secs)
  case 0
  then show ?case
    by (auto split: prod.splits if_splits)
next
  case (Suc r)
  obtain ok d where a: "a i = (ok, d)"
    by (cases "a i") auto
  show ?case
  proof (cases "limit < d \<or> ok")
    case True
    with Suc.prems a show ?thesis
      by (auto split: if_splits)
  next
    case False
    obtain st' n' d' where rec: "job_run limit a (Suc i) r = (st', n', d')"
      by (cases "job_run limit a (Suc i) r") auto
    from Suc.IH [OF rec] have ih: "Suc i < n'" "n' \<le> Suc (Suc i + r)"
      "d' \<le> (n' - Suc i) * limit" "st' = FAILED \<longrightarrow> n' = Suc (Suc i + r)"
      by auto
    from False Suc.prems a rec have eq: "st = st'" "n = n'" "secs = d + d'"
      by auto
    from False have "d \<le> limit"
      by simp
    moreover have "(n' - i) * limit = limit + (n' - Suc i) * limit"
      using ih(1) by (cases "n' - i") (auto simp: Suc_diff_Suc)
    ultimately have "d + d' \<le> (n' - i) * limit"
      using ih(3) by linarith
    with ih eq show ?thesis
      by auto
  qed
qed

section \<open>Executions of the state machine\<close>

lemma run_root:
  "run_execution jobs (state_machine env) w d =
     enforce_timeout (Some (minutes 15)) (exec jobs w (state_machine_definition env) d 0)"
  by (simp add: run_execution_def state_machine_def)

lemma parallel_exec:
  "job_run (minutes 10) (work w ''StartETLJobTask'') 0 1 = (st, n, secs) \<Longrightarrow>
   status (exec [glue_job env] w (parallel env) d now) =
     (if accepts w ''StartCrawlerTask'' \<and> accepts w ''StartETLJobTask'' \<and> st = SUCCEEDED
      then Succeeded else Failed)"
  by (simp add: parallel_def Parallel_def crawl_branch etl_branch join_def
      del: job_run.simps One_nat_def)

lemma root_succeeds:
  assumes "job_run (minutes 10) (work w ''StartETLJobTask'') 0 1 = (SUCCEEDED, n, secs)"
    and "accepts w ''StartCrawlerTask''" and "accepts w ''StartETLJobTask''"
  shows "exec [glue_job env] w (state_machine_definition env) d 0 =
       \<lparr>status = (if accepts w ''PublishSNSTask'' then Succeeded else Failed),
        finished = secs,
        out_data = (if accepts w ''PublishSNSTask'' then response w ''PublishSNSTask''
           else JArray [put_result (Some ''$.crawler'') d (response w ''StartCrawlerTask''),
                        put_result (Some ''$.etl_job'') d (response w ''StartETLJobTask'')]),
        trace = [(0, Entered ''ParallelExecution''),
                 (0, Entered ''StartCrawlerTask''),
                 (0, Accepted ''StartCrawlerTask'' crawler_request),
                 (0, Entered ''StartETLJobTask''),
                 (0, Accepted ''StartETLJobTask'' etl_request),
                 (secs, Entered ''PublishSNSTask''),
                 (secs, answered w ''PublishSNSTask'' (publish_request env))]\<rparr>"
  unfolding root_exec assms(1) using assms(2,3) by simp

lemma root_fails:
  assumes "job_run (minutes 10) (work w ''StartETLJobTask'') 0 1 = (st, n, secs)"
    and "\<not> (accepts w ''StartCrawlerTask'' \<and> accepts w ''StartETLJobTask'' \<and> st = SUCCEEDED)"
  shows "exec [glue_job env] w (state_machine_definition env) d 0 =
       \<lparr>status = Failed,
        finished = (if accepts w ''StartCrawlerTask'' \<and> accepts w ''StartETLJobTask''
                    then secs else 0),
        out_data = JNull,
        trace = [(0, Entered ''ParallelExecution''),
                 (0, Entered ''StartCrawlerTask''),
                 (0, answered w ''StartCrawlerTask'' crawler_request),
                 (0, Entered ''StartETLJobTask''),
                 (0, answered w ''StartETLJobTask'' etl_request)]\<rparr>"
  unfolding root_exec assms(1) using assms(2) by simp

lemma entered_answered [simp]: "Entered s \<noteq> answered w sid rq"
  by (simp add: answered_def)

lemma publication_requests:
  "publication crawler_request = []" "publication etl_request = []"
  "publication (publish_request env) =
     [JObject [(''TopicArn'', JString (topic_arn (sns_topic env))),
               (''Message'', JString ''The Glue ETL job and Crawler have completed successfully!'')]]"
  by (simp_all add: crawler_request_def etl_request_def publish_request_def)

lemma accepted_answered:
  "accepted_request (t, answered w sid rq) = (if accepts w sid then [rq] else [])"
  by (simp add: answered_def)

lemma run_entered:
  assumes "job_run (minutes 10) (work w ''StartETLJobTask'') 0 1 = (st, n, secs)"
  shows "entered ''PublishSNSTask'' (run_execution [glue_job env] (state_machine env) w d)
     \<longleftrightarrow> accepts w ''StartCrawlerTask'' \<and> accepts w ''StartETLJobTask''
          \<and> st = SUCCEEDED \<and> secs \<le> minutes 15"
proof (cases "accepts w ''StartCrawlerTask'' \<and> accepts w ''StartETLJobTask'' \<and> st = SUCCEEDED")
  case True
  then have r: "exec [glue_job env] w (state_machine_definition env) d 0 = 
       \<lparr>status = (if accepts w ''PublishSNSTask'' then Succeeded else Failed),
        finished = secs,
        out_data = (if accepts w ''PublishSNSTask'' then response w ''PublishSNSTask''
           else JArray [put_result (Some ''$.crawler'') d (response w ''StartCrawlerTask''),
                        put_result (Some ''$.etl_job'') d (response w ''StartETLJobTask'')]),
        trace = [(0, Entered ''ParallelExecution''),
                 (0, Entered ''StartCrawlerTask''),
                 (0, Accepted ''StartCrawlerTask'' crawler_request),
                 (0, Entered ''StartETLJobTask''),
                 (0, Accepted ''StartETLJobTask'' etl_request),
                 (secs, Entered ''PublishSNSTask''),
                 (secs, answered w ''PublishSNSTask'' (publish_request env))]\<rparr>"
    using root_succeeds assms by blast
  show ?thesis
    unfolding run_root r using True
    by (simp add: enforce_timeout_def entered_def upto_time_def)
next
  case False
  show ?thesis
    unfolding run_root root_fails [OF assms False] using False
    by (auto simp add: enforce_timeout_def entered_def upto_time_def)
qed

lemma run_status:
  assumes "job_run (minutes 10) (work w ''StartETLJobTask'') 0 1 = (st, n, secs)"
  shows "status (run_execution [glue_job env] (state_machine env) w d) =
     (if accepts w ''StartCrawlerTask'' \<and> accepts w ''StartETLJobTask''
      then (if minutes 15 < secs then TimedOut
            else if st = SUCCEEDED \<and> accepts w ''PublishSNSTask'' then Succeeded else Failed)
      else Failed)"
proof (cases "accepts w ''StartCrawlerTask'' \<and> accepts w ''StartETLJobTask'' \<and> st = SUCCEEDED")
  case True
  then have r: "exec [glue_job env] w (state_machine_definition env) d 0 = 
       \<lparr>status = (if accepts w ''PublishSNSTask'' then Succeeded else Failed),
        finished = secs,
        out_data = (if accepts w ''PublishSNSTask'' then response w ''PublishSNSTask''
           else JArray [put_result (Some ''$.crawler'') d (response w ''StartCrawlerTask''),
                        put_result (Some ''$.etl_job'') d (response w ''StartETLJobTask'')]),
        trace = [(0, Entered ''ParallelExecution''),
                 (0, Entered ''StartCrawlerTask''),
                 (0, Accepted ''StartCrawlerTask'' crawler_request),
                 (0, Entered ''StartETLJobTask''),
                 (0, Accepted ''StartETLJobTask'' etl_request),
                 (secs, Entered ''PublishSNSTask''),
                 (secs, answered w ''PublishSNSTask'' (publish_request env))]\<rparr>"
    using root_succeeds assms by blast
  show ?thesis
    unfolding run_root r using True
    by (simp add: enforce_timeout_def)
next
  case False
  show ?thesis
    unfolding run_root root_fails [OF assms False] using False
    by (auto simp add: enforce_timeout_def)
qed

lemma run_published:
  assumes "job_run (minutes 10) (work w ''StartETLJobTask'') 0 1 = (st, n, secs)"
  shows "published (run_execution [glue_job env] (state_machine env) w d) =
     (if accepts w ''StartCrawlerTask'' \<and> accepts w ''StartETLJobTask''
         \<and> st = SUCCEEDED \<and> secs \<le> minutes 15 \<and> accepts w ''PublishSNSTask''
      then [JObject [(''TopicArn'', JString (topic_arn (sns_topic env))),
               (''Message'', JString ''The Glue ETL job and Crawler have completed successfully!'')]]
      else [])"
proof (cases "accepts w ''StartCrawlerTask'' \<and> accepts w ''StartETLJobTask'' \<and> st = SUCCEEDED")
  case True
  then have r: "exec [glue_job env] w (state_machine_definition env) d 0 = 
       \<lparr>status = (if accepts w ''PublishSNSTask'' then Succeeded else Failed),
        finished = secs,
        out_data = (if accepts w ''PublishSNSTask'' then response w ''PublishSNSTask''
           else JArray [put_result (Some ''$.crawler'') d (response w ''StartCrawlerTask''),
                        put_result (Some ''$.etl_job'') d (response w ''StartETLJobTask'')]),
        trace = [(0, Entered ''ParallelExecution''),
                 (0, Entered ''StartCrawlerTask''),
                 (0, Accepted ''StartCrawlerTask'' crawler_request),
                 (0, Entered ''StartETLJobTask''),
                 (0, Accepted ''StartETLJobTask'' etl_request),
                 (secs, Entered ''PublishSNSTask''),
                 (secs, answered w ''PublishSNSTask'' (publish_request env))]\<rparr>"
    using root_succeeds assms by blast
  show ?thesis
    unfolding run_root r using True
    by (simp add: enforce_timeout_def published_def requests_def upto_time_def
        accepted_answered publication_requests)
next
  case False
  show ?thesis
    unfolding run_root root_fails [OF assms False] using False
    by (auto simp add: enforce_timeout_def published_def requests_def upto_time_def
        accepted_answered publication_requests)
qed

lemma run_finished:
  "finished (run_execution jobs (state_machine env) w d) \<le> minutes 15"
  by (simp add: run_root enforce_timeout_def)

lemma etl_job_run:
  "job_run (minutes (timeout (glue_job env))) a 0 (max_retries (glue_job env))
     = job_run (minutes 10) a 0 1"
  by (simp only: glue_job_params)

text \<open>The job run in the four sample worlds.\<close>

lemma good_job_run:
  "job_run (minutes 10) (work world_all_good ''StartETLJobTask'') 0 1 = (SUCCEEDED, 1, 300)"
  by (simp add: world_all_good_def minutes_def)

lemma failing_job_run:
  "job_run (minutes 10) (work world_job_fails ''StartETLJobTask'') 0 1 = (FAILED, 2, 200)"
  by (simp add: world_job_fails_def minutes_def)

lemma slow_job_run:
  "job_run (minutes 10) (work world_job_slow ''StartETLJobTask'') 0 1 = (SUCCEEDED, 2, 1000)"
  by (simp add: world_job_slow_def minutes_def)

lemma overrunning_job_run:
  "job_run (minutes 10) (work world_job_overruns ''StartETLJobTask'') 0 1 = (TIMEOUT, 1, 600)"
  by (simp add: world_job_overruns_def minutes_def)

section \<open>Claims about executions\<close>

text \<open>
  C3. The publish step is entered exactly when both branches of the Parallel step have
  succeeded within the 15 minutes of the execution. When either branch fails, or when
  the execution times out, the publish step is not entered and nothing is published.
\<close>

theorem notify_iff_both_branches_succeed:
  "let c = exec [glue_job env] w (start_crawler_task env) input 0;
       j = exec [glue_job env] w (start_etl_job_task env) input 0;
       r = run_execution [glue_job env] (state_machine env) w input
   in (entered ''PublishSNSTask'' r \<longleftrightarrow>
         status c = Succeeded \<and> finished c \<le> minutes 15
         \<and> status j = Succeeded \<and> finished j \<le> minutes 15)
      \<and> (status c = Failed \<or> status j = Failed \<longrightarrow>
           \<not> entered ''PublishSNSTask'' r \<and> status r \<noteq> Succeeded \<and> published r = [])
      \<and> (status r = TimedOut \<longrightarrow> \<not> entered ''PublishSNSTask'' r \<and> published r = [])
      \<and> (status r = Succeeded \<longrightarrow> entered ''PublishSNSTask'' r)"
proof -
  obtain st n secs where jr: "job_run (minutes 10) (work w ''StartETLJobTask'') 0 1 = (st, n, secs)"
    by (cases "job_run (minutes 10) (work w ''StartETLJobTask'') 0 1") auto
  show ?thesis
    unfolding Let_def run_entered [OF jr] run_status [OF jr] run_published [OF jr]
      crawl_branch etl_branch jr
    by (auto simp del: job_run.simps One_nat_def)
qed

theorem notify_iff_both_branches_succeed_witness:
  "status (exec [glue_job env0] world_all_good (start_crawler_task env0) JNull 0) = Succeeded
   \<and> status (exec [glue_job env0] world_all_good (start_etl_job_task env0) JNull 0) = Succeeded
   \<and> entered ''PublishSNSTask''
       (run_execution [glue_job env0] (state_machine env0) world_all_good JNull)"
proof -
  have c: "status (exec [glue_job env0] world_all_good (start_crawler_task env0) JNull 0) = Succeeded
      \<and> finished (exec [glue_job env0] world_all_good (start_crawler_task env0) JNull 0) \<le> minutes 15"
    by (simp add: crawl_branch world_all_good_def)
  have j: "status (exec [glue_job env0] world_all_good (start_etl_job_task env0) JNull 0) = Succeeded
      \<and> finished (exec [glue_job env0] world_all_good (start_etl_job_task env0) JNull 0) \<le> minutes 15"
    unfolding etl_branch good_job_run by (simp add: world_all_good_def minutes_def)
  from notify_iff_both_branches_succeed [of env0 world_all_good JNull] c j
  have "entered ''PublishSNSTask''
       (run_execution [glue_job env0] (state_machine env0) world_all_good JNull)"
    unfolding Let_def by blast
  with c j show ?thesis
    by blast
qed

text \<open>
  C4. The ETL step uses the run-a-job pattern: once its start request is accepted, it
  ends when the job run has reached its final state, after the seconds that run took.
  The job has \<open>max_retries = 1\<close> and \<open>timeout = 10\<close> minutes, so a run makes at most two
  attempts of at most 10 minutes each: an attempt that runs over 10 minutes ends the run
  as timed out, a failed first attempt is retried once, and the run ends as failed only
  after the second failure. When the run does not succeed (an attempt over the timeout,
  or both attempts failed), the branch fails, the Parallel step fails, the execution
  does not succeed and the publish step is not entered.
\<close>

theorem etl_branch_waits_with_one_retry:
  "job_run (minutes (timeout (glue_job env))) (work w ''StartETLJobTask'') 0
       (max_retries (glue_job env)) = (st, n, secs) \<Longrightarrow>
   (\<exists>args. kind (start_etl_job_task env) =
       TaskKind (GlueStartJobRun (job_name (glue_job env)) args) RUN_JOB (Some ''$.etl_job''))
   \<and> max_retries (glue_job env) = 1 \<and> timeout (glue_job env) = 10
   \<and> 1 \<le> n \<and> n \<le> 2 \<and> secs \<le> n * minutes 10 \<and> (st = FAILED \<longrightarrow> n = 2)
   \<and> (st, n, secs) =
       (if 600 < snd (work w ''StartETLJobTask'' 0) then (TIMEOUT, 1, 600)
        else if fst (work w ''StartETLJobTask'' 0)
        then (SUCCEEDED, 1, snd (work w ''StartETLJobTask'' 0))
        else if 600 < snd (work w ''StartETLJobTask'' 1)
        then (TIMEOUT, 2, snd (work w ''StartETLJobTask'' 0) + 600)
        else if fst (work w ''StartETLJobTask'' 1)
        then (SUCCEEDED, 2,
              snd (work w ''StartETLJobTask'' 0) + snd (work w ''StartETLJobTask'' 1))
        else (FAILED, 2,
              snd (work w ''StartETLJobTask'' 0) + snd (work w ''StartETLJobTask'' 1)))
   \<and> (accepts w ''StartETLJobTask'' \<longrightarrow>
        finished (exec [glue_job env] w (start_etl_job_task env) d now) = now + secs
        \<and> (status (exec [glue_job env] w (start_etl_job_task env) d now) = Succeeded
             \<longleftrightarrow> st = SUCCEEDED))
   \<and> (st \<noteq> SUCCEEDED \<longrightarrow>
        status (exec [glue_job env] w (start_etl_job_task env) d now) = Failed
        \<and> status (exec [glue_job env] w (parallel env) d now) = Failed
        \<and> status (run_execution [glue_job env] (state_machine env) w d) \<noteq> Succeeded
        \<and> \<not> entered ''PublishSNSTask''
              (run_execution [glue_job env] (state_machine env) w d))
   \<and> (600 < snd (work w ''StartETLJobTask'' 0)
        \<or> \<not> fst (work w ''StartETLJobTask'' 0)
            \<and> (600 < snd (work w ''StartETLJobTask'' 1) \<or> \<not> fst (work w ''StartETLJobTask'' 1))
       \<longrightarrow>
        st \<noteq> SUCCEEDED
        \<and> status (exec [glue_job env] w (start_etl_job_task env) d now) = Failed
        \<and> status (exec [glue_job env] w (parallel env) d now) = Failed
        \<and> status (run_execution [glue_job env] (state_machine env) w d) \<noteq> Succeeded
        \<and> \<not> entered ''PublishSNSTask''
              (run_execution [glue_job env] (state_machine env) w d))"
proof -
  assume "job_run (minutes (timeout (glue_job env))) (work w ''StartETLJobTask'') 0
       (max_retries (glue_job env)) = (st, n, secs)"
  then have jr: "job_run (minutes 10) (work w ''StartETLJobTask'') 0 1 = (st, n, secs)"
    by (simp only: etl_job_run)
  from job_run_bounds [OF jr] have b: "1 \<le> n" "n \<le> 2" "secs \<le> n * minutes 10"
      "st = FAILED \<longrightarrow> n = 2"
    by auto
  have k: "\<exists>args. kind (start_etl_job_task env) =
       TaskKind (GlueStartJobRun (job_name (glue_job env)) args) RUN_JOB (Some ''$.etl_job'')"
    by (simp add: task_shapes glue_job_params)
  have c: "(st, n, secs) =
       (if 600 < snd (work w ''StartETLJobTask'' 0) then (TIMEOUT, 1, 600)
        else if fst (work w ''StartETLJobTask'' 0)
        then (SUCCEEDED, 1, snd (work w ''StartETLJobTask'' 0))
        else if 600 < snd (work w ''StartETLJobTask'' 1)
        then (TIMEOUT, 2, snd (work w ''StartETLJobTask'' 0) + 600)
        else if fst (work w ''StartETLJobTask'' 1)
        then (SUCCEEDED, 2,
              snd (work w ''StartETLJobTask'' 0) + snd (work w ''StartETLJobTask'' 1))
        else (FAILED, 2,
              snd (work w ''StartETLJobTask'' 0) + snd (work w ''StartETLJobTask'' 1)))"
    using jr job_run_one_retry [of "minutes 10" "work w ''StartETLJobTask''"]
    by (simp only: minutes_def) simp
  have e: "accepts w ''StartETLJobTask'' \<longrightarrow>
        finished (exec [glue_job env] w (start_etl_job_task env) d now) = now + secs
        \<and> (status (exec [glue_job env] w (start_etl_job_task env) d now) = Succeeded
             \<longleftrightarrow> st = SUCCEEDED)"
    unfolding etl_branch jr by simp
  have f: "st \<noteq> SUCCEEDED \<longrightarrow>
        status (exec [glue_job env] w (start_etl_job_task env) d now) = Failed"
    unfolding etl_branch jr by simp
  have p: "st \<noteq> SUCCEEDED \<longrightarrow>
        status (exec [glue_job env] w (parallel env) d now) = Failed"
    unfolding parallel_exec [OF jr] by simp
  have r: "st \<noteq> SUCCEEDED \<longrightarrow>
        status (run_execution [glue_job env] (state_machine env) w d) \<noteq> Succeeded
        \<and> \<not> entered ''PublishSNSTask''
              (run_execution [glue_job env] (state_machine env) w d)"
    unfolding run_status [OF jr] run_entered [OF jr] by simp
  have t: "600 < snd (work w ''StartETLJobTask'' 0)
        \<or> \<not> fst (work w ''StartETLJobTask'' 0)
            \<and> (600 < snd (work w ''StartETLJobTask'' 1) \<or> \<not> fst (work w ''StartETLJobTask'' 1))
       \<longrightarrow> st \<noteq> SUCCEEDED"
    using c by (auto split: if_splits)
  from b k c e f p r t show ?thesis
    by (simp only: glue_job_params) blast
qed

theorem etl_branch_waits_with_one_retry_witness:
  "job_run (minutes (timeout (glue_job env0))) (work world_job_fails ''StartETLJobTask'') 0
       (max_retries (glue_job env0)) = (FAILED, 2, 200)
   \<and> status (exec [glue_job env0] world_job_fails (parallel env0) JNull 0) = Failed
   \<and> status (run_execution [glue_job env0] (state_machine env0) world_job_fails JNull)
       \<noteq> Succeeded
   \<and> 600 < snd (work world_job_overruns ''StartETLJobTask'' 0)
   \<and> job_run (minutes (timeout (glue_job env0))) (work world_job_overruns ''StartETLJobTask'') 0
       (max_retries (glue_job env0)) = (TIMEOUT, 1, 600)
   \<and> status (exec [glue_job env0] world_job_overruns (start_etl_job_task env0) JNull 0) = Failed
   \<and> status (exec [glue_job env0] world_job_overruns (parallel env0) JNull 0) = Failed
   \<and> status (run_execution [glue_job env0] (state_machine env0) world_job_overruns JNull)
       \<noteq> Succeeded"
proof -
  have h: "job_run (minutes (timeout (glue_job env0))) (work world_job_fails ''StartETLJobTask'') 0
       (max_retries (glue_job env0)) = (FAILED, 2, 200)"
    by (simp only: etl_job_run failing_job_run)
  have o: "600 < snd (work world_job_overruns ''StartETLJobTask'' 0)"
    by (simp add: world_job_overruns_def)
  have g: "job_run (minutes (timeout (glue_job env0))) (work world_job_overruns ''StartETLJobTask'') 0
       (max_retries (glue_job env0)) = (TIMEOUT, 1, 600)"
    by (simp only: etl_job_run overrunning_job_run)
  from etl_branch_waits_with_one_retry [OF h, of JNull 0]
    etl_branch_waits_with_one_retry [OF g, of JNull 0] h g o
  show ?thesis
    by simp
qed

lemma run_requests:
  assumes "job_run (minutes 10) (work w ''StartETLJobTask'') 0 1 = (st, n, secs)"
  shows "set (requests (run_execution [glue_job env] (state_machine env) w d))
     \<subseteq> {crawler_request, etl_request, publish_request env}"
proof (cases "accepts w ''StartCrawlerTask'' \<and> accepts w ''StartETLJobTask'' \<and> st = SUCCEEDED")
  case True
  then have r: "exec [glue_job env] w (state_machine_definition env) d 0 = 
       \<lparr>status = (if accepts w ''PublishSNSTask'' then Succeeded else Failed),
        finished = secs,
        out_data = (if accepts w ''PublishSNSTask'' then response w ''PublishSNSTask''
           else JArray [put_result (Some ''$.crawler'') d (response w ''StartCrawlerTask''),
                        put_result (Some ''$.etl_job'') d (response w ''StartETLJobTask'')]),
        trace = [(0, Entered ''ParallelExecution''),
                 (0, Entered ''StartCrawlerTask''),
                 (0, Accepted ''StartCrawlerTask'' crawler_request),
                 (0, Entered ''StartETLJobTask''),
                 (0, Accepted ''StartETLJobTask'' etl_request),
                 (secs, Entered ''PublishSNSTask''),
                 (secs, answered w ''PublishSNSTask'' (publish_request env))]\<rparr>"
    using root_succeeds assms by blast
  show ?thesis
    unfolding run_root r
    by (auto simp add: enforce_timeout_def requests_def upto_time_def accepted_answered)
next
  case False
  show ?thesis
    unfolding run_root root_fails [OF assms False]
    by (auto simp add: enforce_timeout_def requests_def upto_time_def accepted_answered)
qed

lemma run_requests_etl:
  assumes "job_run (minutes 10) (work w ''StartETLJobTask'') 0 1 = (st, n, secs)"
  shows "etl_request \<in> set (requests (run_execution [glue_job env] (state_machine env) w d))
     \<longleftrightarrow> accepts w ''StartETLJobTask''"
proof (cases "accepts w ''StartCrawlerTask'' \<and> accepts w ''StartETLJobTask'' \<and> st = SUCCEEDED")
  case True
  then have r: "exec [glue_job env] w (state_machine_definition env) d 0 = 
       \<lparr>status = (if accepts w ''PublishSNSTask'' then Succeeded else Failed),
        finished = secs,
        out_data = (if accepts w ''PublishSNSTask'' then response w ''PublishSNSTask''
           else JArray [put_result (Some ''$.crawler'') d (response w ''StartCrawlerTask''),
                        put_result (Some ''$.etl_job'') d (response w ''StartETLJobTask'')]),
        trace = [(0, Entered ''ParallelExecution''),
                 (0, Entered ''StartCrawlerTask''),
                 (0, Accepted ''StartCrawlerTask'' crawler_request),
                 (0, Entered ''StartETLJobTask''),
                 (0, Accepted ''StartETLJobTask'' etl_request),
                 (secs, Entered ''PublishSNSTask''),
                 (secs, answered w ''PublishSNSTask'' (publish_request env))]\<rparr>"
    using root_succeeds assms by blast
  show ?thesis
    unfolding run_root r using True
    by (auto simp add: enforce_timeout_def requests_def upto_time_def accepted_answered)
next
  case False
  have ne: "etl_request \<noteq> crawler_request"
    by (simp add: etl_request_def crawler_request_def)
  show ?thesis
    unfolding run_root root_fails [OF assms False]
    by (auto simp add: enforce_timeout_def requests_def upto_time_def accepted_answered ne)
qed

text \<open>
  C8. The batch-job step is declared with exactly four arguments: the bookmark option
  \<open>job-bookmark-enable\<close>, the empty metrics flag, and the names of the source and of the
  transformed bucket as \<open>--source_bucket\<close> and \<open>--destination_bucket\<close>; the job's default
  arguments are the same four. The request the step makes to start the job run names the
  job and carries exactly these four arguments, whatever data the step receives; an
  execution makes that request exactly when the service accepts it, and makes no other
  request to start a job run.
\<close>

theorem etl_job_arguments:
  "let args =
         JObject [(''JobName'', JString ''my-Etl-Job''),
                  (''Arguments'',
                   JObject [(''--job-bookmark-option'', JString ''job-bookmark-enable''),
                            (''--enable-metrics'', JString ''''),
                            (''--source_bucket'', JString ''source-bucky-2009-apsouth1''),
                            (''--destination_bucket'',
                             JString ''transform-bucky-2009-apsouth1'')])];
       r = run_execution [glue_job env] (state_machine env) w d
   in kind (start_etl_job_task env) =
        TaskKind
          (GlueStartJobRun ''my-Etl-Job''
             (from_object
                [(''--job-bookmark-option'', ''job-bookmark-enable''),
                 (''--enable-metrics'', ''''),
                 (''--source_bucket'', bucket_name source_bucket),
                 (''--destination_bucket'', bucket_name transformed_bucket)]))
          RUN_JOB (Some ''$.etl_job'')
      \<and> bucket_name source_bucket = ''source-bucky-2009-apsouth1''
      \<and> bucket_name transformed_bucket = ''transform-bucky-2009-apsouth1''
      \<and> default_arguments (glue_job env) =
          [(''--job-bookmark-option'', ''job-bookmark-enable''),
           (''--enable-metrics'', ''''),
           (''--source_bucket'', ''source-bucky-2009-apsouth1''),
           (''--destination_bucket'', ''transform-bucky-2009-apsouth1'')]
      \<and> task_request
            (GlueStartJobRun ''my-Etl-Job''
               (from_object
                  [(''--job-bookmark-option'', ''job-bookmark-enable''),
                   (''--enable-metrics'', ''''),
                   (''--source_bucket'', bucket_name source_bucket),
                   (''--destination_bucket'', bucket_name transformed_bucket)])) d'
          = Some (Request ''Glue'' ''startJobRun'' args)
      \<and> trace (exec [glue_job env] w (start_etl_job_task env) d now) =
          [(now, Entered ''StartETLJobTask''),
           (now, if accepts w ''StartETLJobTask''
                 then Accepted ''StartETLJobTask'' (Request ''Glue'' ''startJobRun'' args)
                 else Rejected ''StartETLJobTask'' (Request ''Glue'' ''startJobRun'' args))]
      \<and> (Request ''Glue'' ''startJobRun'' args \<in> set (requests r)
           \<longleftrightarrow> accepts w ''StartETLJobTask'')
      \<and> (\<forall>ps. Request ''Glue'' ''startJobRun'' ps \<in> set (requests r) \<longrightarrow> ps = args)"
proof -
  obtain st n secs where jr: "job_run (minutes 10) (work w ''StartETLJobTask'') 0 1 = (st, n, secs)"
    by (cases "job_run (minutes 10) (work w ''StartETLJobTask'') 0 1") auto
  have rq: "etl_request =
     Request ''Glue'' ''startJobRun''
       (JObject [(''JobName'', JString ''my-Etl-Job''),
                 (''Arguments'',
                  JObject [(''--job-bookmark-option'', JString ''job-bookmark-enable''),
                           (''--enable-metrics'', JString ''''),
                           (''--source_bucket'', JString ''source-bucky-2009-apsouth1''),
                           (''--destination_bucket'',
                            JString ''transform-bucky-2009-apsouth1'')])])"
    by (simp add: etl_request_def literals_def)
  have k: "kind (start_etl_job_task env) =
        TaskKind
          (GlueStartJobRun ''my-Etl-Job''
             (from_object
                [(''--job-bookmark-option'', ''job-bookmark-enable''),
                 (''--enable-metrics'', ''''),
                 (''--source_bucket'', bucket_name source_bucket),
                 (''--destination_bucket'', bucket_name transformed_bucket)]))
          RUN_JOB (Some ''$.etl_job'')"
    by (simp add: task_shapes bucket_names)
  have da: "default_arguments (glue_job env) =
          [(''--job-bookmark-option'', ''job-bookmark-enable''),
           (''--enable-metrics'', ''''),
           (''--source_bucket'', ''source-bucky-2009-apsouth1''),
           (''--destination_bucket'', ''transform-bucky-2009-apsouth1'')]"
    by (simp add: glue_job_def bucket_names)
  have tr: "task_request
            (GlueStartJobRun ''my-Etl-Job''
               (from_object
                  [(''--job-bookmark-option'', ''job-bookmark-enable''),
                   (''--enable-metrics'', ''''),
                   (''--source_bucket'', bucket_name source_bucket),
                   (''--destination_bucket'', bucket_name transformed_bucket)])) d'
          = Some etl_request"
    by (simp add: etl_request_def bucket_names)
  have tc: "trace (exec [glue_job env] w (start_etl_job_task env) d now) =
          [(now, Entered ''StartETLJobTask''),
           (now, if accepts w ''StartETLJobTask''
                 then Accepted ''StartETLJobTask'' etl_request
                 else Rejected ''StartETLJobTask'' etl_request)]"
    unfolding etl_branch jr by (simp add: answered_def)
  have m: "etl_request \<in> set (requests (run_execution [glue_job env] (state_machine env) w d))
     \<longleftrightarrow> accepts w ''StartETLJobTask''"
    by (rule run_requests_etl [OF jr])
  have o: "\<forall>ps. Request ''Glue'' ''startJobRun'' ps
          \<in> set (requests (run_execution [glue_job env] (state_machine env) w d))
        \<longrightarrow> Request ''Glue'' ''startJobRun'' ps = etl_request"
    using run_requests [OF jr, of env d]
    by (auto simp add: crawler_request_def publish_request_def)
  from k da tr tc m o show ?thesis
    unfolding Let_def rq by (simp add: bucket_names)
qed

theorem etl_job_arguments_witness:
  "Request ''Glue'' ''startJobRun''
     (JObject [(''JobName'', JString ''my-Etl-Job''),
               (''Arguments'',
                JObject [(''--job-bookmark-option'', JString ''job-bookmark-enable''),
                         (''--enable-metrics'', JString ''''),
                         (''--source_bucket'', JString ''source-bucky-2009-apsouth1''),
                         (''--destination_bucket'',
                          JString ''transform-bucky-2009-apsouth1'')])])
   \<in> set (requests (run_execution [glue_job env0] (state_machine env0) world_all_good JNull))"
proof -
  have a: "accepts world_all_good ''StartETLJobTask''"
    by (simp add: world_all_good_def)
  from etl_job_arguments [where env = env0 and w = world_all_good and d = JNull] a
  show ?thesis
    unfolding Let_def by blast
qed

text \<open>
  C5. The crawler step uses the request/response pattern (the source passes no
  integration pattern): it ends at the moment it starts, successfully exactly when the
  start request is accepted. What the crawler does afterwards changes neither the step
  nor the execution, and the only requests an execution makes are the crawler start,
  the job start and the publish, so nothing reads the crawler's state.
\<close>

theorem crawl_branch_fire_and_forget:
  "kind (start_crawler_task env) =
     TaskKind
       (CallAwsService ''Glue'' ''startCrawler''
          [(''Name'', crawler_name (glue_crawler env))] [''*''])
       REQUEST_RESPONSE (Some ''$.crawler'')
   \<and> finished (exec jobs w (start_crawler_task env) d now) = now
   \<and> (status (exec jobs w (start_crawler_task env) d now) = Succeeded
        \<longleftrightarrow> accepts w ''StartCrawlerTask'')
   \<and> exec jobs (w\<lparr>work := (work w)(''StartCrawlerTask'' := f)\<rparr>) (start_crawler_task env) d now
       = exec jobs w (start_crawler_task env) d now
   \<and> run_execution [glue_job env] (state_machine env)
         (w\<lparr>work := (work w)(''StartCrawlerTask'' := f)\<rparr>) d
       = run_execution [glue_job env] (state_machine env) w d
   \<and> set (requests (run_execution [glue_job env] (state_machine env) w d))
       \<subseteq> {Request ''Glue'' ''startCrawler'' (literals [(''Name'', ''crawl_on_usecase'')]),
           etl_request, publish_request env}"
proof -
  obtain st n secs where jr: "job_run (minutes 10) (work w ''StartETLJobTask'') 0 1 = (st, n, secs)"
    by (cases "job_run (minutes 10) (work w ''StartETLJobTask'') 0 1") auto
  have k: "kind (start_crawler_task env) =
     TaskKind
       (CallAwsService ''Glue'' ''startCrawler''
          [(''Name'', crawler_name (glue_crawler env))] [''*''])
       REQUEST_RESPONSE (Some ''$.crawler'')"
    by (simp add: task_shapes glue_crawler_def)
  have a: "finished (exec jobs w (start_crawler_task env) d now) = now
   \<and> (status (exec jobs w (start_crawler_task env) d now) = Succeeded
        \<longleftrightarrow> accepts w ''StartCrawlerTask'')"
    by (simp add: crawl_branch)
  have b: "exec jobs (w\<lparr>work := (work w)(''StartCrawlerTask'' := f)\<rparr>) (start_crawler_task env) d now
       = exec jobs w (start_crawler_task env) d now"
    by (simp add: crawl_branch answered_def)
  have c: "run_execution [glue_job env] (state_machine env)
         (w\<lparr>work := (work w)(''StartCrawlerTask'' := f)\<rparr>) d
       = run_execution [glue_job env] (state_machine env) w d"
  proof -
    have w': "work (w\<lparr>work := (work w)(''StartCrawlerTask'' := f)\<rparr>) ''StartETLJobTask''
        = work w ''StartETLJobTask''"
      by simp
    show ?thesis
      unfolding run_root root_exec w' jr
      by (simp add: answered_def)
  qed
  have r: "set (requests (run_execution [glue_job env] (state_machine env) w d))
       \<subseteq> {Request ''Glue'' ''startCrawler'' (literals [(''Name'', ''crawl_on_usecase'')]),
           etl_request, publish_request env}"
    using run_requests [OF jr] by (simp only: crawler_request_def)
  from k a b c r show ?thesis
    by (simp only: simp_thms)
qed

theorem crawl_branch_fire_and_forget_witness:
  "finished (exec [glue_job env0] world_all_good (start_crawler_task env0) JNull 0) = 0
   \<and> run_execution [glue_job env0] (state_machine env0)
         (world_all_good\<lparr>work := (work world_all_good)(''StartCrawlerTask'' := (\<lambda>i. (False, 86400)))\<rparr>)
         JNull
       = run_execution [glue_job env0] (state_machine env0) world_all_good JNull"
  using crawl_branch_fire_and_forget
    [of env0 "[glue_job env0]" world_all_good JNull 0 "\<lambda>i. (False, 86400)"]
  by blast

text \<open>
  C6. The state machine's timeout is 15 minutes. No execution lasts longer than that; an
  execution whose steps would take longer ends as timed out at 15 minutes, whatever its
  branches were doing, and every execution ends as succeeded, failed or timed out.
\<close>

theorem execution_never_exceeds_15_minutes:
  "timeout_seconds (state_machine env) = Some (15 * 60)
   \<and> finished (run_execution [glue_job env] (state_machine env) w d) \<le> 15 * 60
   \<and> (15 * 60 < finished (exec [glue_job env] w (definition_root (state_machine env)) d 0) \<longrightarrow>
        status (run_execution [glue_job env] (state_machine env) w d) = TimedOut
        \<and> finished (run_execution [glue_job env] (state_machine env) w d) = 15 * 60)
   \<and> status (run_execution [glue_job env] (state_machine env) w d)
       \<in> {Succeeded, Failed, TimedOut}"
proof -
  have t: "timeout_seconds (state_machine env) = Some (15 * 60)"
    by (simp add: state_machine_def minutes_def)
  have f: "finished (run_execution [glue_job env] (state_machine env) w d) \<le> 15 * 60"
    using run_finished [of "[glue_job env]" env w d] by (simp add: minutes_def)
  have o: "15 * 60 < finished (exec [glue_job env] w (definition_root (state_machine env)) d 0) \<longrightarrow>
        status (run_execution [glue_job env] (state_machine env) w d) = TimedOut
        \<and> finished (run_execution [glue_job env] (state_machine env) w d) = 15 * 60"
    by (simp add: run_execution_def state_machine_def enforce_timeout_def minutes_def)
  have s: "status (run_execution [glue_job env] (state_machine env) w d)
       \<in> {Succeeded, Failed, TimedOut}"
    by (cases "status (run_execution [glue_job env] (state_machine env) w d)") simp_all
  from t f o s show ?thesis
    by (simp only: simp_thms)
qed

theorem execution_never_exceeds_15_minutes_witness:
  "15 * 60 < finished (exec [glue_job env0] world_job_slow
                 (definition_root (state_machine env0)) JNull 0)
   \<and> status (run_execution [glue_job env0] (state_machine env0) world_job_slow JNull) = TimedOut
   \<and> finished (run_execution [glue_job env0] (state_machine env0) world_job_slow JNull) = 15 * 60"
proof -
  have "exec [glue_job env0] world_job_slow (definition_root (state_machine env0)) JNull 0
      = exec [glue_job env0] world_job_slow (state_machine_definition env0) JNull 0"
    by (simp add: state_machine_def)
  then have h: "15 * 60 < finished (exec [glue_job env0] world_job_slow
                 (definition_root (state_machine env0)) JNull 0)"
    unfolding root_exec slow_job_run by (simp add: world_job_slow_def)
  from execution_never_exceeds_15_minutes [of env0 world_job_slow JNull] h show ?thesis
    by blast
qed

text \<open>
  C9. The publish step sends a literal text to the stack's topic; the text does not read
  the data the step receives. An execution publishes exactly this one message when it
  succeeds and publishes nothing when it fails or times out.
\<close>

theorem notify_fixed_message_on_success_only:
  "kind (publish_sns_task env) =
     TaskKind
       (SnsPublish (sns_topic env)
          (from_text ''The Glue ETL job and Crawler have completed successfully!''))
       REQUEST_RESPONSE None
   \<and> resolve (message (SnsPublish (sns_topic env)
          (from_text ''The Glue ETL job and Crawler have completed successfully!''))) d'
       = Some (JString ''The Glue ETL job and Crawler have completed successfully!'')
   \<and> published (run_execution [glue_job env] (state_machine env) w d) =
       (if status (run_execution [glue_job env] (state_machine env) w d) = Succeeded
        then [JObject [(''TopicArn'', JString (topic_arn (sns_topic env))),
                       (''Message'',
                        JString ''The Glue ETL job and Crawler have completed successfully!'')]]
        else [])"
proof -
  obtain st n secs where jr: "job_run (minutes 10) (work w ''StartETLJobTask'') 0 1 = (st, n, secs)"
    by (cases "job_run (minutes 10) (work w ''StartETLJobTask'') 0 1") auto
  have k: "kind (publish_sns_task env) =
     TaskKind
       (SnsPublish (sns_topic env)
          (from_text ''The Glue ETL job and Crawler have completed successfully!''))
       REQUEST_RESPONSE None"
    by (simp add: task_shapes)
  have m: "resolve (message (SnsPublish (sns_topic env)
          (from_text ''The Glue ETL job and Crawler have completed successfully!''))) d'
       = Some (JString ''The Glue ETL job and Crawler have completed successfully!'')"
    by simp
  have p: "published (run_execution [glue_job env] (state_machine env) w d) =
       (if status (run_execution [glue_job env] (state_machine env) w d) = Succeeded
        then [JObject [(''TopicArn'', JString (topic_arn (sns_topic env))),
                       (''Message'',
                        JString ''The Glue ETL job and Crawler have completed successfully!'')]]
        else [])"
    unfolding run_published [OF jr] run_status [OF jr] by auto
  from k m p show ?thesis
    by (simp only: simp_thms)
qed

theorem notify_fixed_message_on_success_only_witness:
  "status (run_execution [glue_job env0] (state_machine env0) world_all_good
         (execution_input
            \<lparr>source = ''aws.s3'', detail_type = ''Object Created'',
             detail = [(''bucket'', Obj [(''name'', Str ''source-bucky-2009-apsouth1'')]),
                       (''object'', Obj [(''key'', Str ''report.csv'')])]\<rparr>)) = Succeeded
   \<and> published (run_execution [glue_job env0] (state_machine env0) world_all_good
         (execution_input
            \<lparr>source = ''aws.s3'', detail_type = ''Object Created'',
             detail = [(''bucket'', Obj [(''name'', Str ''source-bucky-2009-apsouth1'')]),
                       (''object'', Obj [(''key'', Str ''report.csv'')])]\<rparr>)) =
       [JObject [(''TopicArn'', JString (topic_arn (sns_topic env0))),
                 (''Message'',
                  JString ''The Glue ETL job and Crawler have completed successfully!'')]]
   \<and> published (run_execution [glue_job env0] (state_machine env0) world_job_fails JNull) = []"
proof -
  have s: "\<And>d. status (run_execution [glue_job env0] (state_machine env0) world_all_good d)
      = Succeeded"
    unfolding run_status [OF good_job_run] by (simp add: world_all_good_def minutes_def)
  have f: "status (run_execution [glue_job env0] (state_machine env0) world_job_fails JNull)
      \<noteq> Succeeded"
    unfolding run_status [OF failing_job_run] by (simp add: world_job_fails_def minutes_def)
  from notify_fixed_message_on_success_only [of env0 JNull world_all_good
         "execution_input
            \<lparr>source = ''aws.s3'', detail_type = ''Object Created'',
             detail = [(''bucket'', Obj [(''name'', Str ''source-bucky-2009-apsouth1'')]),
                       (''object'', Obj [(''key'', Str ''report.csv'')])]\<rparr>"]
    notify_fixed_message_on_success_only [of env0 JNull world_job_fails JNull] s f
  show ?thesis
    by simp
qed

end
